theory Spec2Isabelle
  imports Main "HOL-Library.Char_ord" "HOL-Library.List_Lexorder" "HOL-Library.Sublist"
begin

section \<open>Python values and string operations\<close>

text \<open>
  The scripts under \<^verbatim>\<open>.github/scripts\<close> manipulate JSON documents, text and the answers of
  the GitHub API. Text is modelled as \<^typ>\<open>string\<close>; the operations below are the ASCII
  behaviour of the Python \<^verbatim>\<open>str\<close> methods the scripts call. An exception that leaves a
  function is a value \<open>Inl e\<close> of the result.
\<close>

datatype error =
    SystemExit nat
  | KeyError string
  | AttributeError string
  | IndexError

datatype json =
    JNull
  | JBool bool
  | JNum int
  | JStr string
  | JArr "json list"
  | JObj "(string \<times> json) list"

text \<open>\<^verbatim>\<open>str.lower()\<close> on ASCII text.\<close>

definition lower_char :: "char \<Rightarrow> char" where
  "lower_char c =
     (case map_of (zip ''ABCDEFGHIJKLMNOPQRSTUVWXYZ'' ''abcdefghijklmnopqrstuvwxyz'') c of
        Some d \<Rightarrow> d
      | None \<Rightarrow> c)"

definition lower :: "string \<Rightarrow> string" where
  "lower s = map lower_char s"

text \<open>The character class \<^verbatim>\<open>[a-z0-9]\<close>, and \<^verbatim>\<open>[a-zA-Z0-9]\<close>.\<close>

definition is_lower_alnum :: "char \<Rightarrow> bool" where
  "is_lower_alnum c = (c \<in> set ''abcdefghijklmnopqrstuvwxyz0123456789'')"

definition is_alnum :: "char \<Rightarrow> bool" where
  "is_alnum c = (is_lower_alnum c \<or> c \<in> set ''ABCDEFGHIJKLMNOPQRSTUVWXYZ'')"

text \<open>
  White space in the ASCII range, as \<^verbatim>\<open>str.strip()\<close> and the regex class \<^verbatim>\<open>\s\<close> see it:
  the blank, tab to carriage return, and the four separators 0x1C to 0x1F.
\<close>

definition is_space :: "char \<Rightarrow> bool" where
  "is_space c =
     (c \<in> set [CHR '' '', CHR 0x09, CHR 0x0A, CHR 0x0B, CHR 0x0C, CHR 0x0D,
                CHR 0x1C, CHR 0x1D, CHR 0x1E, CHR 0x1F])"

definition strip :: "string \<Rightarrow> string" where
  "strip s = rev (dropWhile is_space (rev (dropWhile is_space s)))"

text \<open>\<^verbatim>\<open>s.split(sep)\<close> for a one-character separator: never the empty list.\<close>

fun split_sep :: "char \<Rightarrow> string \<Rightarrow> string list" where
  "split_sep sep [] = [[]]"
| "split_sep sep (c # cs) =
     (if c = sep then [] # split_sep sep cs
      else (case split_sep sep cs of
              p # ps \<Rightarrow> (c # p) # ps
            | [] \<Rightarrow> [[c]]))"

text \<open>
  \<^verbatim>\<open>s.replace(old, '')\<close>: the occurrences of \<open>old\<close> are deleted left to right, without
  overlap; an empty \<open>old\<close> leaves the text as it is.
\<close>

function replace_del :: "string \<Rightarrow> string \<Rightarrow> string" where
  "replace_del old [] = []"
| "replace_del old (c # cs) =
     (if old \<noteq> [] \<and> prefix old (c # cs)
      then replace_del old (drop (length old) (c # cs))
      else c # replace_del old cs)"
  by pat_completeness auto
termination
  by (relation "measure (\<lambda>(old, s). length s)") (auto simp: Suc_le_eq)

text \<open>\<^verbatim>\<open>s.startswith(('http://', 'https://'))\<close>.\<close>

definition starts_with_http :: "string \<Rightarrow> bool" where
  "starts_with_http u = (prefix ''http://'' u \<or> prefix ''https://'' u)"

text \<open>Truthiness of an optional text: \<^verbatim>\<open>None\<close> and \<^verbatim>\<open>''\<close> are false.\<close>

definition truthy :: "string option \<Rightarrow> bool" where
  "truthy s = (case s of None \<Rightarrow> False | Some t \<Rightarrow> t \<noteq> [])"

section \<open>utils.py: loading JSON files\<close>

text \<open>
  A file either cannot be read or holds text; the parser \<open>json_load\<close> (Python's
  \<^verbatim>\<open>json.load\<close>) answers \<open>None\<close> where it raises \<^verbatim>\<open>JSONDecodeError\<close>. A path outside
  the domain of the file system does not exist.
\<close>

datatype file_state = Unreadable | Contents string

type_synonym filesystem = "string \<rightharpoonup> file_state"

definition load_json :: "(string \<Rightarrow> json option) \<Rightarrow> filesystem \<Rightarrow> string \<Rightarrow> error + json" where
  "load_json json_load fs path =
     (case fs path of
        None \<Rightarrow> Inr (JArr [])
      | Some Unreadable \<Rightarrow> Inl (SystemExit 1)
      | Some (Contents s) \<Rightarrow>
          (case json_load s of
             None \<Rightarrow> Inl (SystemExit 1)
           | Some v \<Rightarrow> Inr v))"

section \<open>update_source.py: the existing catalog\<close>

text \<open>
  The \<^verbatim>\<open>try\<close> around \<^verbatim>\<open>load_json\<close> has a bare \<^verbatim>\<open>except:\<close>, which catches every
  exception, \<^verbatim>\<open>SystemExit\<close> included; control then falls through to the literal.
\<close>

definition load_existing_source ::
  "(string \<Rightarrow> json option) \<Rightarrow> filesystem \<Rightarrow> string \<Rightarrow> string \<Rightarrow> string \<Rightarrow> error + json" where
  "load_existing_source json_load fs source_file default_name default_identifier =
     (let fresh = JObj [(''name'', JStr default_name),
                        (''identifier'', JStr default_identifier),
                        (''apps'', JArr []),
                        (''news'', JArr [])]
      in if fs source_file \<noteq> None
         then (case load_json json_load fs source_file of
                 Inr v \<Rightarrow> Inr v
               | Inl e \<Rightarrow> Inr fresh)
         else Inr fresh)"

section \<open>The name normalizer\<close>

text \<open>
  Modelled from the spec: \<^verbatim>\<open>normalize_name\<close>, which update_source.py imports from utils
  although the utils.py of this repository does not define it. The spec (4.1) gives its
  contract: the canonical form is obtained by lower-casing and collapsing all separator
  characters (spaces, hyphens, underscores, punctuation). Collapsing is read as deleting.
\<close>

definition is_separator :: "char \<Rightarrow> bool" where
  "is_separator c =
     (is_space c \<or> c \<in> set ''-_!#$%&()*+,./:;<=>?@[]^`{|}~'' \<or>
      c = CHR 0x22 \<or> c = CHR 0x27 \<or> c = CHR 0x5C)"

definition normalize_name :: "string \<Rightarrow> string" where
  "normalize_name s = filter (\<lambda>c. \<not> is_separator c) (lower s)"

section \<open>update_source.py: the identifier disambiguator\<close>

definition suffixes :: "string list" where
  "suffixes = [''nightly'', ''beta'', ''alpha'', ''dev'', ''test'', ''experimental'',
               ''pre-release'', ''jit'', ''sidestore'']"

text \<open>
  \<open>norm\<close> stands for the imported \<^verbatim>\<open>normalize_name\<close>. The loop over \<open>suffixes\<close> stops at
  the first keyword contained in the lower-cased name (\<^verbatim>\<open>break\<close>).
\<close>

definition apply_bundle_id_suffix ::
  "(string \<Rightarrow> string) \<Rightarrow> string \<Rightarrow> string \<Rightarrow> string \<Rightarrow> string" where
  "apply_bundle_id_suffix norm bundle_id app_name repo_name =
     (if bundle_id = [] then bundle_id
      else
        let name_lower = lower app_name in
        case find (\<lambda>s. sublist s name_lower) suffixes of
          Some s \<Rightarrow>
            if \<not> suffix (''.'' @ s) bundle_id then bundle_id @ ''.'' @ s else bundle_id
        | None \<Rightarrow>
            let repo_name_clean = lower (last (split_sep CHR ''/'' repo_name)) in
            if norm app_name \<noteq> norm repo_name_clean then
              let extra = strip (replace_del repo_name_clean name_lower);
                  extra_clean = filter is_lower_alnum extra
              in if extra_clean \<noteq> [] \<and> length extra_clean > 2 then
                   (if \<not> suffix (''.'' @ extra_clean) bundle_id
                    then bundle_id @ ''.'' @ extra_clean
                    else bundle_id)
                 else bundle_id
            else bundle_id)"

section \<open>utils.py: the release resolver\<close>

text \<open>
  The answers of the GitHub API are taken as parsed JSON. Of a release the resolver reads
  the flags \<^verbatim>\<open>draft\<close> and \<^verbatim>\<open>prerelease\<close> (absent means false), the tag and the publication
  date (absent or null means the empty text).
\<close>

record asset =
  asset_name :: string
  browser_download_url :: string
  asset_size :: int

record release =
  tag_name :: string
  draft :: bool
  prerelease :: bool
  published_at :: "string option"
  body :: "string option"
  assets :: "asset list"

text \<open>
  \<^verbatim>\<open>client.get\<close> answers \<^verbatim>\<open>None\<close> after a failed request (\<open>Unavailable\<close>); the body of an
  answer is a list of releases or some other JSON value.
\<close>

datatype releases_response = Unavailable | Not_a_list | Releases "release list"

text \<open>
  A regular expression engine \<open>re_search\<close> maps the text of a pattern to the search
  predicate of the compiled, case-insensitive pattern, or to \<open>None\<close> where
  \<^verbatim>\<open>re.compile\<close> raises.
\<close>

type_synonym regex_engine = "string \<Rightarrow> (string \<Rightarrow> bool) option"

definition get_date :: "release \<Rightarrow> string" where
  "get_date r = (case published_at r of None \<Rightarrow> [] | Some d \<Rightarrow> d)"

text \<open>
  \<^verbatim>\<open>sorted(xs, key=key, reverse=True)\<close>: Python reverses the list, sorts it stably in
  ascending order and reverses the result, so elements with equal keys keep their order.
\<close>

definition sorted_reverse :: "('a \<Rightarrow> 'k::linorder) \<Rightarrow> 'a list \<Rightarrow> 'a list" where
  "sorted_reverse key xs = rev (sort_key key (rev xs))"

text \<open>Lines 120 to 130: drafts are dropped, then the tag filter is applied if it compiles.\<close>

definition filter_by_tag :: "regex_engine \<Rightarrow> string option \<Rightarrow> release list \<Rightarrow> release list" where
  "filter_by_tag re_search tag_regex active_releases =
     (if truthy tag_regex then
        (case re_search (the tag_regex) of
           Some search \<Rightarrow> filter (\<lambda>r. search (tag_name r)) active_releases
         | None \<Rightarrow> active_releases)
      else active_releases)"

definition get_latest_release ::
  "regex_engine \<Rightarrow> releases_response \<Rightarrow> bool \<Rightarrow> string option \<Rightarrow> release option" where
  "get_latest_release re_search resp prefer_pre_release tag_regex =
     (case resp of
        Unavailable \<Rightarrow> None
      | Not_a_list \<Rightarrow> None
      | Releases releases \<Rightarrow>
          let active_releases = filter (\<lambda>r. \<not> draft r) releases in
          if active_releases = [] then None
          else
            let active_releases = filter_by_tag re_search tag_regex active_releases in
            if active_releases = [] then None
            else
              let stable = filter (\<lambda>r. \<not> prerelease r) active_releases;
                  pre = filter prerelease active_releases
              in
                if prefer_pre_release then
                  let sorted_pre = sorted_reverse get_date pre;
                      sorted_stable = sorted_reverse get_date stable
                  in
                    if sorted_pre \<noteq> [] \<and>
                       (sorted_stable = [] \<or> get_date (hd sorted_pre) \<ge> get_date (hd sorted_stable))
                    then Some (hd sorted_pre)
                    else if sorted_stable \<noteq> [] then Some (hd sorted_stable)
                    else if sorted_pre \<noteq> [] then Some (hd sorted_pre)
                    else None
                else if stable \<noteq> [] then Some (hd (sorted_reverse get_date stable))
                else Some (hd (sorted_reverse get_date active_releases)))"

section \<open>update_source.py: images\<close>

text \<open>
  \<open>client_get\<close> is \<^verbatim>\<open>GitHubClient.get\<close>: the content of the response, or \<open>None\<close> after a
  \<^verbatim>\<open>RequestException\<close>, which \<^verbatim>\<open>get\<close> catches itself. \<open>image_size\<close> is the size of
  \<^verbatim>\<open>Image.open\<close> of the content, \<open>None\<close> where Pillow raises. An absent URL is the empty
  text.
\<close>

type_synonym content = string

text \<open>
  The aspect ratio \<^verbatim>\<open>width / height\<close> is compared with 0.95 and 1.05 over exact fractions;
  a height of zero raises \<^verbatim>\<open>ZeroDivisionError\<close>, which the handler turns into \<^verbatim>\<open>True\<close> like
  every other exception of the \<^verbatim>\<open>try\<close> block.
\<close>

definition is_square_image ::
  "(string \<Rightarrow> content option) \<Rightarrow> (content \<Rightarrow> (nat \<times> nat) option) \<Rightarrow> string \<Rightarrow> bool" where
  "is_square_image client_get image_size image_url =
     (if image_url = [] \<or> \<not> starts_with_http image_url then False
      else
        case client_get image_url of
          None \<Rightarrow> False
        | Some response \<Rightarrow>
            (case image_size response of
               None \<Rightarrow> True
             | Some (width, height) \<Rightarrow>
                 if height = 0 then True
                 else 95 * height \<le> 100 * width \<and> 100 * width \<le> 105 * height))"

text \<open>
  The colour extractor sees the image through \<open>image_colors\<close>: the list of
  \<^verbatim>\<open>(count, (r, g, b, a))\<close> that \<^verbatim>\<open>getcolors\<close> gives for the image converted to RGBA and
  resized to 100 by 100, \<open>No_colors\<close> where \<^verbatim>\<open>getcolors\<close> answers \<^verbatim>\<open>None\<close>, \<open>Image_error\<close>
  where Pillow raises.
\<close>

type_synonym rgba = "nat \<times> nat \<times> nat \<times> nat"

datatype colors_result = Image_error | No_colors | Colors "(nat \<times> rgba) list"

text \<open>The loop of lines 67 to 79, with its two variables as arguments.\<close>

fun dominant_of :: "(nat \<times> rgba) list \<Rightarrow> nat \<Rightarrow> nat \<times> nat \<times> nat \<Rightarrow> nat \<times> nat \<times> nat" where
  "dominant_of [] max_count dominant = dominant"
| "dominant_of ((count, (r, g, b, a)) # colors) max_count dominant =
     (if a < 10 then dominant_of colors max_count dominant
      else if r > 240 \<and> g > 240 \<and> b > 240 then dominant_of colors max_count dominant
      else if r < 15 \<and> g < 15 \<and> b < 15 then dominant_of colors max_count dominant
      else if count > max_count then dominant_of colors count (r, g, b)
      else dominant_of colors max_count dominant)"

text \<open>\<^verbatim>\<open>'{:02x}'.format(n).upper()\<close>: hexadecimal, at least two digits, upper case.\<close>

definition hex_digit :: "nat \<Rightarrow> char" where
  "hex_digit n = ''0123456789ABCDEF'' ! n"

fun hex_str :: "nat \<Rightarrow> string" where
  "hex_str n = (if n < 16 then [hex_digit n] else hex_str (n div 16) @ [hex_digit (n mod 16)])"

definition format_02x :: "nat \<Rightarrow> string" where
  "format_02x n = (let h = hex_str n in if length h < 2 then CHR ''0'' # h else h)"

definition extract_dominant_color ::
  "(string \<Rightarrow> content option) \<Rightarrow> (content \<Rightarrow> colors_result) \<Rightarrow> string \<Rightarrow> string option" where
  "extract_dominant_color client_get image_colors image_url =
     (if image_url = [] \<or> \<not> starts_with_http image_url then None
      else
        case client_get image_url of
          None \<Rightarrow> None
        | Some response \<Rightarrow>
            (case image_colors response of
               Image_error \<Rightarrow> None
             | No_colors \<Rightarrow> None
             | Colors colors \<Rightarrow>
                 if colors = [] then None
                 else
                   (case dominant_of colors 0 (0, 0, 0) of
                      (r, g, b) \<Rightarrow>
                        Some (''#'' @ format_02x r @ format_02x g @ format_02x b))))"

section \<open>utils.py: the icon discoverer\<close>

text \<open>
  The client is the record of its answers, each taken as parsed JSON. \<open>get_git_tree\<close> gives
  the paths under the key \<^verbatim>\<open>tree\<close>, \<open>None\<close> when the request fails or the key is absent;
  \<open>get_repo_contents\<close> gives the names of the root listing, \<open>None\<close> when it is unavailable,
  not a list, or an item has no name. Of the repository information the scripts read the
  description, the avatar of the owner and the default branch. \<open>download\<close> stands for the
  streamed download of an asset into a temporary file: the downloaded package, or \<open>None\<close>
  when the request or the copy raises.
\<close>

record repo_info =
  description :: "string option"
  owner_avatar_url :: "string option"
  default_branch :: "string option"

record plist =
  CFBundleShortVersionString :: "string option"
  CFBundleVersion :: "string option"
  CFBundleIdentifier :: "string option"

text \<open>
  A downloaded package: its \<^verbatim>\<open>Info.plist\<close> (\<open>None\<close> when no such member is found or the
  archive or the plist cannot be read) and the SHA-256 of its bytes in hexadecimal.
\<close>

record ipa =
  info_plist :: "plist option"
  sha256_hex :: string

record client =
  http_get :: "string \<Rightarrow> content option"
  get_repo_info :: "string \<Rightarrow> repo_info option"
  get_releases :: "string \<Rightarrow> releases_response"
  get_git_tree :: "string \<Rightarrow> string list option"
  get_repo_contents :: "string \<Rightarrow> string list option"
  download :: "string \<Rightarrow> ipa option"

text \<open>\<^verbatim>\<open>os.path.basename\<close>: the text after the last slash.\<close>

definition basename :: "string \<Rightarrow> string" where
  "basename p = last (split_sep CHR ''/'' p)"

definition valid_exts :: "string list" where
  "valid_exts = [''.png'', ''.jpg'', ''.jpeg'', ''.webp'', ''.svg'']"

definition score_path :: "string \<Rightarrow> int" where
  "score_path path =
     (let p = lower path;
          name = basename p
      in (if sublist ''appicon.appiconset'' p then 100
          else if sublist ''ios/'' p then 50
          else if sublist ''assets/'' p then 20
          else if sublist ''public/'' p then 10
          else 0)
       + (if sublist ''icon'' name then 30
          else if sublist ''logo'' name then 20
          else if sublist ''app'' name then 10
          else 0)
       + (if sublist ''1024'' name then 15
          else if sublist ''512'' name then 10
          else if sublist ''120'' name then 5
          else 0)
       - (if sublist ''android'' p then 50 else 0)
       - (if sublist ''small'' name then 10 else 0)
       - (if sublist ''toolbar'' name then 20 else 0))"

text \<open>
  The result is \<^verbatim>\<open>None\<close> or one text: the raw URL of the first candidate of the highest
  score, or the avatar of the owner. The last request for the repository information is
  outside any \<^verbatim>\<open>try\<close>, so \<^verbatim>\<open>repo_info.get\<close> on \<^verbatim>\<open>None\<close> raises \<^verbatim>\<open>AttributeError\<close>.
\<close>

definition find_best_icon :: "client \<Rightarrow> string \<Rightarrow> error + string option" where
  "find_best_icon c repo =
     (let tree_data =
            (case get_git_tree c repo of
               Some tree \<Rightarrow> Some tree
             | None \<Rightarrow>
                 (case get_repo_contents c repo of
                    None \<Rightarrow> None
                  | Some root_contents \<Rightarrow>
                      if root_contents = [] then None else Some root_contents))
      in case tree_data of
           None \<Rightarrow> Inr None
         | Some tree \<Rightarrow>
             let candidates =
                   filter (\<lambda>(s, path). s > 0)
                     (map (\<lambda>path. (score_path path, path))
                        (filter (\<lambda>path. list_ex (\<lambda>ext. suffix ext (lower path)) valid_exts) tree))
             in if candidates = [] then
                  (case get_repo_info c repo of
                     None \<Rightarrow> Inr None
                   | Some repo_info \<Rightarrow> Inr (owner_avatar_url repo_info))
                else
                  let best_path = snd (hd (sorted_reverse fst candidates)) in
                  case get_repo_info c repo of
                    None \<Rightarrow> Inl (AttributeError ''get'')
                  | Some repo_info \<Rightarrow>
                      let default_branch =
                            (case default_branch repo_info of None \<Rightarrow> ''main'' | Some b \<Rightarrow> b)
                      in Inr (Some (''https://raw.githubusercontent.com/'' @ repo @ ''/'' @
                                    default_branch @ ''/'' @ best_path)))"

text \<open>
  Lines 257 to 264 and 391 to 401 of update_source.py: the caller iterates over what
  \<^verbatim>\<open>find_best_icon\<close> returned and keeps the first element that passes the squareness check,
  or element 0 when none does. The value is a text, and a \<^verbatim>\<open>for\<close> loop over a text visits
  its characters, each a text of length one. The loop runs only for a non-empty value.
\<close>

definition pick_candidate :: "(string \<Rightarrow> bool) \<Rightarrow> string \<Rightarrow> string" where
  "pick_candidate is_square repo_icons =
     (case find is_square (map (\<lambda>ch. [ch]) repo_icons) of
        Some cand \<Rightarrow> cand
      | None \<Rightarrow> [hd repo_icons])"

section \<open>update_source.py: the asset resolver\<close>

text \<open>
  The functions of the Python library and the two helpers that update_source.py imports
  from utils without utils.py defining them (\<^verbatim>\<open>normalize_name\<close>, \<^verbatim>\<open>score_icon_path\<close>) are
  parameters of the model, collected in one record.
\<close>

record deps =
  dep_re_search :: regex_engine
  dep_image_size :: "content \<Rightarrow> (nat \<times> nat) option"
  dep_image_colors :: "content \<Rightarrow> colors_result"
  dep_normalize_name :: "string \<Rightarrow> string"
  dep_score_icon_path :: "string \<Rightarrow> int"

record app_config =
  name :: string
  github_repo :: string
  icon_url :: "string option"
  tint_color :: "string option"
  pre_release :: bool
  tag_regex :: "string option"
  ipa_regex :: "string option"

text \<open>
  \<^verbatim>\<open>re.sub(r'\s*\((.*?)\)', '', s)\<close>: from left to right, a run of white space followed by
  an opening parenthesis, the shortest text without a line feed up to a closing parenthesis,
  and that parenthesis, are deleted.
\<close>

function strip_parens :: "string \<Rightarrow> string" where
  "strip_parens [] = []"
| "strip_parens (c # cs) =
     (let rest = dropWhile is_space (c # cs) in
      case rest of
        [] \<Rightarrow> c # strip_parens cs
      | p # inner \<Rightarrow>
          if p = CHR ''(''
          then (case dropWhile (\<lambda>x. x \<noteq> CHR '')'' \<and> x \<noteq> CHR 0x0A) inner of
                  [] \<Rightarrow> c # strip_parens cs
                | q # after \<Rightarrow>
                    if q = CHR '')'' then strip_parens after else c # strip_parens cs)
          else c # strip_parens cs)"
  by pat_completeness auto
termination
proof (relation "measure length")
  fix c cs rest p inner q after
  assume r: "rest = dropWhile is_space (c # cs)" "rest = p # inner"
    and a: "dropWhile (\<lambda>x. x \<noteq> CHR '')'' \<and> x \<noteq> CHR 0x0A) inner = q # after"
  have "length (q # after) \<le> length inner"
    using a length_dropWhile_le [of "\<lambda>x. x \<noteq> CHR '')'' \<and> x \<noteq> CHR 0x0A" inner] by simp
  moreover have "length (p # inner) \<le> length (c # cs)"
    using r length_dropWhile_le [of is_space "c # cs"] by simp
  ultimately show "(after, c # cs) \<in> measure length" by simp
qed simp_all

text \<open>
  \<^verbatim>\<open>re.findall(r'[a-zA-Z0-9]{3,}', s)\<close>: the maximal runs of letters and digits that have
  at least three characters; \<open>acc\<close> is the run being read.
\<close>

fun alnum_runs :: "string \<Rightarrow> string \<Rightarrow> string list" where
  "alnum_runs acc [] = (if length acc \<ge> 3 then [acc] else [])"
| "alnum_runs acc (c # cs) =
     (if is_alnum c then alnum_runs (acc @ [c]) cs
      else (if length acc \<ge> 3 then [acc] else []) @ alnum_runs [] cs)"

text \<open>
  \<^verbatim>\<open>os.path.splitext(p)[0]\<close>: the text before the last dot of the base name, unless that
  dot is preceded in the base name by dots only (or by nothing).
\<close>

definition splitext_root :: "string \<Rightarrow> string" where
  "splitext_root p =
     (let base = basename p in
      if CHR ''.'' \<in> set base then
        let stem = rev (tl (dropWhile (\<lambda>x. x \<noteq> CHR ''.'') (rev base))) in
        if list_ex (\<lambda>x. x \<noteq> CHR ''.'') stem
        then take (length p - length base) p @ stem
        else p
      else p)"

definition exclude_patterns :: "string list" where
  "exclude_patterns = [''-remote'', ''-hv'', ''-se'', ''-jailbroken'', ''-macos'', ''-linux'',
                       ''-windows'']"

definition select_best_ipa :: "deps \<Rightarrow> asset list \<Rightarrow> app_config \<Rightarrow> asset option" where
  "select_best_ipa d asset_list app_config =
     (let ipa_assets = filter (\<lambda>a. suffix ''.ipa'' (lower (asset_name a))) asset_list in
      if ipa_assets = [] then None
      else if length ipa_assets = 1 then Some (hd ipa_assets)
      else
        let by_regex =
              (if truthy (ipa_regex app_config) then
                 (case dep_re_search d (the (ipa_regex app_config)) of
                    Some search \<Rightarrow> find (\<lambda>a. search (asset_name a)) ipa_assets
                  | None \<Rightarrow> None)
               else None)
        in case by_regex of
             Some a \<Rightarrow> Some a
           | None \<Rightarrow>
               let norm_app_name = dep_normalize_name d (name app_config);
                   norm_repo_name =
                     dep_normalize_name d (last (split_sep CHR ''/'' (github_repo app_config)));
                   name_clean = strip_parens (name app_config);
                   name_words = alnum_runs [] (lower name_clean);
                   repo_words = alnum_runs [] (lower (github_repo app_config));
                   flavor_keywords = remdups (filter (\<lambda>w. w \<notin> set repo_words) name_words);
                   norm_base = (\<lambda>a. dep_normalize_name d (splitext_root (asset_name a)))
               in case find (\<lambda>a. norm_base a = norm_app_name \<or> norm_base a = norm_repo_name)
                         ipa_assets of
                    Some a \<Rightarrow> Some a
                  | None \<Rightarrow>
                      let score = (\<lambda>a.
                            (if sublist norm_app_name (norm_base a) then 10 else 0)
                          + (if sublist (norm_base a) norm_app_name then 5 else 0)
                          + 20 * int (length (filter
                                (\<lambda>kw. sublist kw (lower (splitext_root (asset_name a))))
                                flavor_keywords)));
                          scored_assets = sorted_reverse fst (map (\<lambda>a. (score a, a)) ipa_assets)
                      in if fst (hd scored_assets) > 0 then Some (snd (hd scored_assets))
                         else
                           let filtered =
                                 filter (\<lambda>a. \<not> list_ex (\<lambda>p. sublist p (lower (asset_name a)))
                                                  exclude_patterns) ipa_assets
                           in if filtered \<noteq> [] then Some (hd filtered)
                              else Some (hd ipa_assets))"

section \<open>update_source.py: the catalog reconciler\<close>

text \<open>
  The catalog is a JSON document; an entry is a dictionary read and written by key. A field
  of the records below is \<open>None\<close> when the key is absent. Null values are not modelled.
\<close>

record version_record =
  v_version :: string
  v_date :: string
  v_localizedDescription :: string
  v_downloadURL :: "string option"
  v_size :: int
  v_sha256 :: string

record app_entry =
  entry_name :: "string option"
  githubRepo :: "string option"
  bundleIdentifier :: "string option"
  developerName :: "string option"
  version :: "string option"
  versionDate :: "string option"
  versionDescription :: "string option"
  downloadURL :: "string option"
  localizedDescription :: "string option"
  iconURL :: "string option"
  tintColor :: "string option"
  entry_size :: "int option"
  sha256 :: "string option"
  permissions :: "(string \<times> json) list option"
  screenshotURLs :: "string list option"
  versions :: "version_record list option"

record source =
  source_name :: string
  source_identifier :: string
  apps :: "app_entry list"
  news :: "json list"

definition get_ipa_metadata :: "ipa \<Rightarrow> string \<Rightarrow> (string \<times> string \<times> string) option" where
  "get_ipa_metadata ipa_file default_bundle_id =
     (case info_plist ipa_file of
        None \<Rightarrow> None
      | Some pl \<Rightarrow>
          Some (case CFBundleShortVersionString pl of None \<Rightarrow> ''0.0.0'' | Some v \<Rightarrow> v,
                case CFBundleVersion pl of None \<Rightarrow> ''0'' | Some b \<Rightarrow> b,
                case CFBundleIdentifier pl of None \<Rightarrow> default_bundle_id | Some i \<Rightarrow> i))"

fun first_index :: "('a \<Rightarrow> bool) \<Rightarrow> 'a list \<Rightarrow> nat option" where
  "first_index P [] = None"
| "first_index P (x # xs) = (if P x then Some 0 else map_option Suc (first_index P xs))"

text \<open>
  Lines 225 to 232: the position of the entry with this repository and name, else of the
  only entry with this repository. The entry is an object inside the catalog, which later
  assignments change in place; the model updates the list at that position.
\<close>

definition match_entry :: "string \<Rightarrow> string \<Rightarrow> app_entry list \<Rightarrow> nat option" where
  "match_entry repo app_name entries =
     (case first_index (\<lambda>a. githubRepo a = Some repo \<and> entry_name a = Some app_name) entries of
        Some i \<Rightarrow> Some i
      | None \<Rightarrow>
          if length (filter (\<lambda>a. githubRepo a = Some repo) entries) = 1
          then first_index (\<lambda>a. githubRepo a = Some repo) entries
          else None)"

text \<open>Lines 241 to 246: the stored bundle identifier is disambiguated again.\<close>

definition refresh_bundle_id :: "deps \<Rightarrow> string \<Rightarrow> string \<Rightarrow> app_entry \<Rightarrow> app_entry" where
  "refresh_bundle_id d app_name repo app_entry =
     (case bundleIdentifier app_entry of
        Some old_id \<Rightarrow>
          app_entry\<lparr>bundleIdentifier :=
            Some (apply_bundle_id_suffix (dep_normalize_name d) old_id app_name repo)\<rparr>
      | None \<Rightarrow> app_entry)"

text \<open>
  Lines 249 to 283: the icon of the configuration, else the current one, compared with
  the icon found in the repository (\<open>repo_icons\<close> is the value of \<^verbatim>\<open>find_best_icon\<close>).
\<close>

definition select_icon ::
  "deps \<Rightarrow> client \<Rightarrow> string option \<Rightarrow> string option \<Rightarrow> string option \<Rightarrow> string option" where
  "select_icon d c config_icon current_icon repo_icons =
     (let is_square = is_square_image (http_get c) (dep_image_size d);
          best_icon =
            (if truthy config_icon \<and> the config_icon \<notin> set [''None'', ''_No response_'']
             then config_icon else current_icon);
          repo_icon =
            (if truthy repo_icons then Some (pick_candidate is_square (the repo_icons))
             else None)
      in if truthy repo_icon then
           (if \<not> truthy best_icon then repo_icon
            else
              let score_current = dep_score_icon_path d (the best_icon);
                  score_repo = dep_score_icon_path d (the repo_icon);
                  current_is_square = is_square (the best_icon);
                  repo_is_square = is_square (the repo_icon)
              in if repo_is_square \<and> \<not> current_is_square then repo_icon
                 else if score_repo > score_current then repo_icon
                 else best_icon)
         else best_icon)"

text \<open>
  Lines 288 to 293: the tint of the configuration, else a colour extracted from the icon
  when the entry has no tint or the placeholder. \<^verbatim>\<open>app_entry['iconURL']\<close> raises
  \<^verbatim>\<open>KeyError\<close> when the entry has no icon.
\<close>

definition refresh_tint :: "deps \<Rightarrow> client \<Rightarrow> app_config \<Rightarrow> app_entry \<Rightarrow> error + app_entry" where
  "refresh_tint d c app_config app_entry =
     (let config_tint = tint_color app_config in
      if truthy config_tint then Inr (app_entry\<lparr>tintColor := config_tint\<rparr>)
      else if \<not> truthy (tintColor app_entry) \<or> tintColor app_entry = Some ''#000000'' then
        (case iconURL app_entry of
           None \<Rightarrow> Inl (KeyError ''iconURL'')
         | Some u \<Rightarrow>
             let extracted = extract_dominant_color (http_get c) (dep_image_colors d) u in
             if truthy extracted then Inr (app_entry\<lparr>tintColor := extracted\<rparr>)
             else Inr app_entry)
      else Inr app_entry)"

text \<open>Lines 237 to 295: the refresh of a matched entry, ending with the removal of the
  key \<^verbatim>\<open>permissions\<close>.\<close>

definition refresh_entry :: "deps \<Rightarrow> client \<Rightarrow> app_config \<Rightarrow> app_entry \<Rightarrow> error + app_entry" where
  "refresh_entry d c app_config entry =
     (let repo = github_repo app_config;
          app_name = name app_config;
          app_entry =
            refresh_bundle_id d app_name repo
              (entry\<lparr>githubRepo := Some repo, entry_name := Some app_name\<rparr>)
      in case find_best_icon c repo of
           Inl e \<Rightarrow> Inl e
         | Inr repo_icons \<Rightarrow>
             let best_icon =
                   select_icon d c (icon_url app_config) (iconURL app_entry) repo_icons;
                 app_entry =
                   (if truthy best_icon then app_entry\<lparr>iconURL := best_icon\<rparr> else app_entry)
             in case refresh_tint d c app_config app_entry of
                  Inl e \<Rightarrow> Inl e
                | Inr app_entry \<Rightarrow> Inr (app_entry\<lparr>permissions := None\<rparr>))"

text \<open>Lines 388 to 401: the icon of a new entry.\<close>

definition new_entry_icon :: "deps \<Rightarrow> client \<Rightarrow> app_config \<Rightarrow> error + string" where
  "new_entry_icon d c app_config =
     (let icon = (case icon_url app_config of None \<Rightarrow> [] | Some u \<Rightarrow> u) in
      if icon = [] \<or> icon \<in> set [''None'', ''_No response_''] then
        (case find_best_icon c (github_repo app_config) of
           Inl e \<Rightarrow> Inl e
         | Inr icon_candidates \<Rightarrow>
             if truthy icon_candidates
             then Inr (pick_candidate (is_square_image (http_get c) (dep_image_size d))
                         (the icon_candidates))
             else Inr icon)
      else Inr icon)"

text \<open>
  Lines 427 to 434: the discovered icon is written into the curated list when the entry of
  this repository has no icon of its own.
\<close>

definition sync_icon :: "string option \<Rightarrow> string \<Rightarrow> app_config list option \<Rightarrow> app_config list option" where
  "sync_icon found_icon_auto repo apps_list_to_update =
     (if truthy found_icon_auto \<and> apps_list_to_update \<noteq> None then
        (case first_index (\<lambda>item. github_repo item = repo) (the apps_list_to_update) of
           None \<Rightarrow> apps_list_to_update
         | Some k \<Rightarrow>
             let orig_config = the apps_list_to_update ! k in
             if \<not> truthy (icon_url orig_config)
             then Some ((the apps_list_to_update)
                          [k := orig_config\<lparr>icon_url := found_icon_auto\<rparr>])
             else apps_list_to_update)
      else apps_list_to_update)"

text \<open>
  Lines 332 to 343: the version and bundle identifier read from the package, or the tag
  without its leading \<^verbatim>\<open>v\<close>s and a placeholder identifier; then the hash and the
  disambiguated identifier.
\<close>

definition version_from_ipa ::
  "deps \<Rightarrow> string \<Rightarrow> string \<Rightarrow> release \<Rightarrow> ipa \<Rightarrow> string \<times> string \<times> string" where
  "version_from_ipa d app_name repo release ipa_file =
     (let default_bundle_id = ''com.placeholder.'' @ replace_del '' '' (lower app_name);
          fallback = (dropWhile (\<lambda>x. x = CHR ''v'') (tag_name release), default_bundle_id);
          (new_version, bundle_id) =
            (case get_ipa_metadata ipa_file default_bundle_id of
               None \<Rightarrow> fallback
             | Some (v, build, bid) \<Rightarrow> if v = [] then fallback else (v, bid))
      in (new_version,
          apply_bundle_id_suffix (dep_normalize_name d) bundle_id app_name repo,
          sha256_hex ipa_file))"

text \<open>Lines 403 to 406: the tint of a new entry.\<close>

definition new_entry_tint :: "deps \<Rightarrow> client \<Rightarrow> app_config \<Rightarrow> string \<Rightarrow> string" where
  "new_entry_tint d c app_config icon =
     (if truthy (tint_color app_config) then the (tint_color app_config)
      else
        let extracted = extract_dominant_color (http_get c) (dep_image_colors d) icon in
        if truthy extracted then the extracted else ''#000000'')"

text \<open>
  Lines 354 to 425: the new version record is put in front of the history of the matched
  entry and mirrored into its fields, or a new entry is appended. \<^verbatim>\<open>published_at\<close> of
  \<^verbatim>\<open>None\<close> has no \<^verbatim>\<open>split\<close>, and a matched entry without the key \<^verbatim>\<open>versions\<close> raises
  \<^verbatim>\<open>KeyError\<close>.
\<close>

definition merge_version ::
  "deps \<Rightarrow> client \<Rightarrow> app_config \<Rightarrow> source \<Rightarrow> nat option \<Rightarrow> release \<Rightarrow> asset \<Rightarrow>
   string \<times> string \<times> string \<Rightarrow> error + source" where
  "merge_version d c app_config existing_source matched release ipa_asset vbs =
     (case vbs of (new_version, bundle_id, sha) \<Rightarrow>
      let repo = github_repo app_config;
          app_name = name app_config;
          download_url = browser_download_url ipa_asset;
          repo_desc =
            (case get_repo_info c repo of
               None \<Rightarrow> ''No description available.''
             | Some info \<Rightarrow>
                 if truthy (description info) then the (description info)
                 else ''No description available.'');
          main_desc = repo_desc;
          version_desc = (if truthy (body release) then the (body release) else ''Update'')
      in
      case published_at release of
        None \<Rightarrow> Inl (AttributeError ''split'')
      | Some published \<Rightarrow>
          let release_date = hd (split_sep CHR ''T'' published);
              new_version_entry =
                \<lparr>v_version = new_version,
                 v_date = release_date,
                 v_localizedDescription = version_desc,
                 v_downloadURL = Some download_url,
                 v_size = asset_size ipa_asset,
                 v_sha256 = sha\<rparr>
          in
          (case matched of
             Some i \<Rightarrow>
               let app_entry = apps existing_source ! i in
               (case versions app_entry of
                  None \<Rightarrow> Inl (KeyError ''versions'')
                | Some vs \<Rightarrow>
                    Inr (existing_source\<lparr>apps := (apps existing_source)
                           [i := app_entry
                              \<lparr>versions := Some (new_version_entry # vs),
                               version := Some new_version,
                               versionDate := Some release_date,
                               versionDescription := Some version_desc,
                               downloadURL := Some download_url,
                               localizedDescription := Some main_desc,
                               entry_size := Some (asset_size ipa_asset),
                               sha256 := Some sha,
                               bundleIdentifier := Some bundle_id\<rparr>]\<rparr>))
           | None \<Rightarrow>
               (case new_entry_icon d c app_config of
                  Inl e \<Rightarrow> Inl e
                | Inr icon \<Rightarrow>
                    let tint = new_entry_tint d c app_config icon;
                        app_entry =
                          \<lparr>entry_name = Some app_name,
                           githubRepo = Some repo,
                           bundleIdentifier = Some bundle_id,
                           developerName = Some (hd (split_sep CHR ''/'' repo)),
                           version = Some new_version,
                           versionDate = Some release_date,
                           versionDescription = Some version_desc,
                           downloadURL = Some download_url,
                           localizedDescription = Some main_desc,
                           iconURL = Some icon,
                           tintColor = Some tint,
                           entry_size = Some (asset_size ipa_asset),
                           sha256 = None,
                           permissions = Some [],
                           screenshotURLs = Some [],
                           versions = Some [new_version_entry]\<rparr>
                    in Inr (existing_source\<lparr>apps := apps existing_source @ [app_entry]\<rparr>))))"

text \<open>
  \<^verbatim>\<open>process_app\<close>. The result is the catalog together with the curated list
  \<^verbatim>\<open>apps_list_to_update\<close>, both of which the Python code changes in place. An early
  \<^verbatim>\<open>return\<close> after the refresh returns the catalog with the refreshed entry. Exceptions
  raised inside the \<^verbatim>\<open>try\<close> block of the download end in \<^verbatim>\<open>return existing_source\<close>; the
  others leave the function. \<^verbatim>\<open>found_icon_auto\<close> is assigned once, \<^verbatim>\<open>None\<close>, in line 234.
\<close>

definition process_app ::
  "deps \<Rightarrow> client \<Rightarrow> app_config \<Rightarrow> source \<Rightarrow> app_config list option \<Rightarrow>
   error + source \<times> app_config list option" where
  "process_app d c app_config source0 apps_list_to_update =
     (let repo = github_repo app_config;
          app_name = name app_config;
          matched = match_entry repo app_name (apps source0);
          found_icon_auto = (None :: string option)
      in
      case (case matched of
              None \<Rightarrow> Inr source0
            | Some i \<Rightarrow>
                (case refresh_entry d c app_config (apps source0 ! i) of
                   Inl e \<Rightarrow> Inl e
                 | Inr app_entry \<Rightarrow> Inr (source0\<lparr>apps := (apps source0)[i := app_entry]\<rparr>))) of
        Inl e \<Rightarrow> Inl e
      | Inr existing_source \<Rightarrow>
          (case get_latest_release (dep_re_search d) (get_releases c repo)
                  (pre_release app_config) (tag_regex app_config) of
             None \<Rightarrow> Inr (existing_source, apps_list_to_update)
           | Some release \<Rightarrow>
               (case select_best_ipa d (assets release) app_config of
                  None \<Rightarrow> Inr (existing_source, apps_list_to_update)
                | Some ipa_asset \<Rightarrow>
                    let download_url = browser_download_url ipa_asset in
                    if matched \<noteq> None \<and>
                       list_ex (\<lambda>v. v_downloadURL v = Some download_url)
                         (case versions (apps existing_source ! the matched) of
                            None \<Rightarrow> []
                          | Some vs \<Rightarrow> vs)
                    then Inr (existing_source, apps_list_to_update)
                    else
                      (case download c download_url of
                         None \<Rightarrow> Inr (existing_source, apps_list_to_update)
                       | Some ipa_file \<Rightarrow>
                           (case merge_version d c app_config existing_source matched
                                   release ipa_asset
                                   (version_from_ipa d app_name repo release ipa_file) of
                              Inl e \<Rightarrow> Inl e
                            | Inr merged \<Rightarrow>
                                Inr (merged,
                                     sync_icon found_icon_auto repo apps_list_to_update))))))"

text \<open>
  \<^verbatim>\<open>update_repo\<close>, from the loaded curated list \<open>config\<close> and the value \<open>loaded\<close> of
  \<^verbatim>\<open>load_existing_source\<close>. The loop visits the positions of the curated list in order and
  passes the list itself as \<^verbatim>\<open>apps_list_to_update\<close>.
\<close>

fun process_apps ::
  "deps \<Rightarrow> client \<Rightarrow> nat \<Rightarrow> nat \<Rightarrow> source \<times> app_config list \<Rightarrow> error + source \<times> app_config list" where
  "process_apps d c i 0 st = Inr st"
| "process_apps d c i (Suc n) (source_data, config) =
     (case process_app d c (config ! i) source_data (Some config) of
        Inl e \<Rightarrow> Inl e
      | Inr (source_data', config') \<Rightarrow>
          process_apps d c (Suc i) n
            (source_data', case config' of None \<Rightarrow> config | Some l \<Rightarrow> l))"

text \<open>
  What a run writes: the curated list, if it was changed, and the catalog.
\<close>

record written =
  saved_config :: "app_config list option"
  saved_source :: source

definition get_sort_key :: "app_config list \<Rightarrow> app_entry \<Rightarrow> int" where
  "get_sort_key config app_entry =
     (let app_order = map_of (rev (zip (map github_repo config) [0..<length config])) in
      if truthy (githubRepo app_entry) then
        (case app_order (the (githubRepo app_entry)) of
           Some idx \<Rightarrow> int idx
         | None \<Rightarrow> 9999)
      else 9999)"

definition update_repo ::
  "deps \<Rightarrow> client \<Rightarrow> app_config list \<Rightarrow> source \<Rightarrow> string \<Rightarrow> string \<Rightarrow> error + written" where
  "update_repo d c config loaded name_of_source identifier_of_source =
     (let original_apps = config;
          source_data = loaded\<lparr>source_name := name_of_source,
                               source_identifier := identifier_of_source\<rparr>
      in case process_apps d c 0 (length config) (source_data, config) of
           Inl e \<Rightarrow> Inl e
         | Inr (source_data, config') \<Rightarrow>
             let valid_repos = map github_repo config';
                 valid_names =
                   map (\<lambda>app. (Some (hd (split_sep CHR ''/'' (github_repo app))), Some (name app)))
                     config';
                 new_apps_list =
                   filter (\<lambda>a. if truthy (githubRepo a)
                                then the (githubRepo a) \<in> set valid_repos
                                else (developerName a, entry_name a) \<in> set valid_names)
                     (apps source_data)
             in Inr \<lparr>saved_config = (if config' \<noteq> original_apps then Some config' else None),
                     saved_source =
                       source_data\<lparr>apps := sort_key (get_sort_key config') new_apps_list\<rparr>\<rparr>)"

section \<open>Statements and example inputs\<close>

text \<open>
  Two entries have the same history when they agree on the version records and on the
  fields that mirror the newest record.
\<close>

definition same_history :: "app_entry \<Rightarrow> app_entry \<Rightarrow> bool" where
  "same_history e e' \<longleftrightarrow>
     versions e' = versions e \<and> version e' = version e \<and> versionDate e' = versionDate e \<and>
     versionDescription e' = versionDescription e \<and> downloadURL e' = downloadURL e \<and>
     localizedDescription e' = localizedDescription e \<and> entry_size e' = entry_size e \<and>
     sha256 e' = sha256 e"

text \<open>
  A run of the engine on one tracked application \<^verbatim>\<open>Foo\<close> of the repository \<^verbatim>\<open>org/foo\<close>,
  whose only release \<^verbatim>\<open>v1.0.0\<close> has the single asset \<^verbatim>\<open>Foo.ipa\<close>. Every image can be
  fetched and is a square of one colour. \<open>example_client\<close> finds no file tree;
  \<open>example_client_icons\<close> finds a tree with two image files. \<open>example_entry\<close> is the
  catalog entry of the application after its first synchronisation.
\<close>

definition example_deps :: deps where
  "example_deps =
     \<lparr>dep_re_search = (\<lambda>p. None),
      dep_image_size = (\<lambda>content. Some (1024, 1024)),
      dep_image_colors = (\<lambda>content. Colors [(10000, (10, 132, 255, 255))]),
      dep_normalize_name = normalize_name,
      dep_score_icon_path = score_path\<rparr>"

definition example_release :: release where
  "example_release =
     \<lparr>tag_name = ''v1.0.0'', draft = False, prerelease = False,
      published_at = Some ''2024-01-01T00:00:00Z'', body = Some ''First release'',
      assets = [\<lparr>asset_name = ''Foo.ipa'',
                 browser_download_url = ''https://github.com/org/foo/releases/download/v1.0.0/Foo.ipa'',
                 asset_size = 100\<rparr>]\<rparr>"

definition example_client :: client where
  "example_client =
     \<lparr>http_get = (\<lambda>url. Some ''PNG''),
      get_repo_info = (\<lambda>repo. Some \<lparr>description = Some ''A test app'',
                                     owner_avatar_url = None,
                                     default_branch = Some ''main''\<rparr>),
      get_releases = (\<lambda>repo. Releases [example_release]),
      get_git_tree = (\<lambda>repo. None),
      get_repo_contents = (\<lambda>repo. None),
      download = (\<lambda>url. Some \<lparr>info_plist = Some \<lparr>CFBundleShortVersionString = Some ''1.0.0'',
                                                   CFBundleVersion = Some ''1'',
                                                   CFBundleIdentifier = Some ''org.foo''\<rparr>,
                                sha256_hex = ''abc123''\<rparr>)\<rparr>"

definition example_client_icons :: client where
  "example_client_icons =
     example_client
       \<lparr>get_git_tree := (\<lambda>repo. Some [''README.md'', ''docs/logo.png'',
                                       ''Assets/AppIcon.appiconset/icon-1024.png''])\<rparr>"

definition example_app :: app_config where
  "example_app =
     \<lparr>name = ''Foo'', github_repo = ''org/foo'', icon_url = None, tint_color = None,
      pre_release = False, tag_regex = None, ipa_regex = None\<rparr>"

definition example_entry :: app_entry where
  "example_entry =
     \<lparr>entry_name = Some ''Foo'',
      githubRepo = Some ''org/foo'',
      bundleIdentifier = Some ''org.foo'',
      developerName = Some ''org'',
      version = Some ''1.0.0'',
      versionDate = Some ''2024-01-01'',
      versionDescription = Some ''First release'',
      downloadURL = Some ''https://github.com/org/foo/releases/download/v1.0.0/Foo.ipa'',
      localizedDescription = Some ''A test app'',
      iconURL = Some [],
      tintColor = Some ''#000000'',
      entry_size = Some 100,
      sha256 = None,
      permissions = Some [],
      screenshotURLs = Some [],
      versions = Some [\<lparr>v_version = ''1.0.0'', v_date = ''2024-01-01'',
                        v_localizedDescription = ''First release'',
                        v_downloadURL =
                          Some ''https://github.com/org/foo/releases/download/v1.0.0/Foo.ipa'',
                        v_size = 100, v_sha256 = ''abc123''\<rparr>]\<rparr>"

definition example_catalog :: "app_entry list \<Rightarrow> source" where
  "example_catalog entries =
     \<lparr>source_name = ''Sideload Source'', source_identifier = ''io.github.source'',
      apps = entries, news = []\<rparr>"

section \<open>Properties\<close>

subsection \<open>Loading a corrupted catalog\<close>

text \<open>
  C9. When the catalog file exists and its text is not valid JSON, \<^verbatim>\<open>load_json\<close> leaves
  with \<^verbatim>\<open>sys.exit(1)\<close>, and \<^verbatim>\<open>load_existing_source\<close> nevertheless returns the fresh empty
  catalog with the default name and identifier, no apps and no news.
\<close>

theorem load_existing_source_invalid_json:
  assumes "fs source_file = Some (Contents s)" and "json_load s = None"
  shows "load_json json_load fs source_file = Inl (SystemExit 1) \<and>
         load_existing_source json_load fs source_file default_name default_identifier =
           Inr (JObj [(''name'', JStr default_name),
                      (''identifier'', JStr default_identifier),
                      (''apps'', JArr []),
                      (''news'', JArr [])])"
  using assms by (simp add: load_json_def load_existing_source_def)

theorem load_existing_source_invalid_json_witness:
  "load_json (\<lambda>s. if s = ''{'' then None else Some JNull)
     [''sources/standard/source.json'' \<mapsto> Contents ''{'']
     ''sources/standard/source.json'' = Inl (SystemExit 1) \<and>
   load_existing_source (\<lambda>s. if s = ''{'' then None else Some JNull)
     [''sources/standard/source.json'' \<mapsto> Contents ''{'']
     ''sources/standard/source.json'' ''My Source'' ''io.github.source'' =
       Inr (JObj [(''name'', JStr ''My Source''),
                  (''identifier'', JStr ''io.github.source''),
                  (''apps'', JArr []),
                  (''news'', JArr [])])"
  using load_existing_source_invalid_json
    [of "[''sources/standard/source.json'' \<mapsto> Contents ''{'']"
        "''sources/standard/source.json''" "''{''"
        "\<lambda>s. if s = ''{'' then None else Some JNull"
        "''My Source''" "''io.github.source''"]
  by simp

subsection \<open>Release resolution\<close>

lemma sorted_key_le_last:
  "sorted (map key ys) \<Longrightarrow> x \<in> set ys \<Longrightarrow> key x \<le> key (last ys)"
  by (induction ys) (auto split: if_splits)

lemma sorted_reverse_Nil_iff: "sorted_reverse key xs = [] \<longleftrightarrow> xs = []"
proof -
  have "length (sorted_reverse key xs) = length xs"
    by (simp add: sorted_reverse_def)
  then show ?thesis by (metis length_0_conv)
qed

lemma hd_sorted_reverse_mem: "xs \<noteq> [] \<Longrightarrow> hd (sorted_reverse key xs) \<in> set xs"
proof -
  assume "xs \<noteq> []"
  then have "sorted_reverse key xs \<noteq> []" by (simp add: sorted_reverse_Nil_iff)
  then have "hd (sorted_reverse key xs) \<in> set (sorted_reverse key xs)" by (rule hd_in_set)
  then show ?thesis by (simp add: sorted_reverse_def)
qed

lemma hd_sorted_reverse_max:
  assumes "x \<in> set xs"
  shows "key x \<le> key (hd (sorted_reverse key xs))"
proof -
  let ?ys = "sort_key key (rev xs)"
  have "sorted (map key ?ys)" by simp
  moreover have "x \<in> set ?ys" using assms by simp
  ultimately have "key x \<le> key (last ?ys)" by (rule sorted_key_le_last)
  then show ?thesis by (simp add: sorted_reverse_def hd_rev)
qed

lemma filter_by_tag_Nil: "filter_by_tag re_search tag_re [] = []"
  by (simp add: filter_by_tag_def split: option.splits)

lemma get_latest_release_unfold:
  "get_latest_release re_search (Releases releases) True tag_re =
     (let act = filter_by_tag re_search tag_re (filter (\<lambda>r. \<not> draft r) releases);
          sp = hd (sorted_reverse get_date (filter prerelease act));
          ss = hd (sorted_reverse get_date (filter (\<lambda>r. \<not> prerelease r) act))
      in if act = [] then None
         else if filter prerelease act \<noteq> [] \<and>
                 (filter (\<lambda>r. \<not> prerelease r) act = [] \<or> get_date ss \<le> get_date sp)
         then Some sp
         else Some ss)"
proof -
  have part: "filter prerelease act = [] \<Longrightarrow> filter (\<lambda>r. \<not> prerelease r) act = [] \<Longrightarrow> act = []"
    for act :: "release list"
    by (induction act) (auto split: if_splits)
  show ?thesis
    using part [of "filter_by_tag re_search tag_re (filter (\<lambda>r. \<not> draft r) releases)"]
    by (auto simp: get_latest_release_def Let_def sorted_reverse_Nil_iff filter_by_tag_Nil)
qed

text \<open>
  C1, as the code has it. With \<^verbatim>\<open>prefer_pre_release\<close> set, the resolver returns nothing exactly
  when no release is left after the draft and tag filters. A pre-release it returns is an
  active release that no active release, stable or not, is published later than. A stable
  release it returns is an active release that no stable release is published later than
  and that every active pre-release is published strictly earlier than. So the most recent
  pre-release is returned unless a stable release is strictly later; on equal dates the
  pre-release wins.
\<close>

theorem get_latest_release_prefer_pre:
  fixes re_search :: regex_engine
  defines "act \<equiv> \<lambda>tag_re releases.
             filter_by_tag re_search tag_re (filter (\<lambda>r. \<not> draft r) releases)"
  shows "case get_latest_release re_search (Releases releases) True tag_re of
           None \<Rightarrow> act tag_re releases = []
         | Some r \<Rightarrow>
             r \<in> set (act tag_re releases) \<and>
             (if prerelease r
              then \<forall>x\<in>set (act tag_re releases). get_date x \<le> get_date r
              else \<forall>x\<in>set (act tag_re releases).
                     if prerelease x then get_date x < get_date r
                     else get_date x \<le> get_date r)"
proof -
  let ?act = "act tag_re releases"
  let ?pre = "filter prerelease ?act"
  let ?stable = "filter (\<lambda>r. \<not> prerelease r) ?act"
  let ?sp = "hd (sorted_reverse get_date ?pre)"
  let ?ss = "hd (sorted_reverse get_date ?stable)"
  have res: "get_latest_release re_search (Releases releases) True tag_re =
      (if ?act = [] then None
       else if ?pre \<noteq> [] \<and> (?stable = [] \<or> get_date ?ss \<le> get_date ?sp) then Some ?sp
       else Some ?ss)"
    unfolding act_def get_latest_release_unfold Let_def ..
  have sp_mem: "?pre \<noteq> [] \<Longrightarrow> ?sp \<in> set ?pre" by (rule hd_sorted_reverse_mem)
  have ss_mem: "?stable \<noteq> [] \<Longrightarrow> ?ss \<in> set ?stable" by (rule hd_sorted_reverse_mem)
  have sp_max: "x \<in> set ?act \<Longrightarrow> prerelease x \<Longrightarrow> get_date x \<le> get_date ?sp" for x
    by (rule hd_sorted_reverse_max) simp
  have ss_max: "x \<in> set ?act \<Longrightarrow> \<not> prerelease x \<Longrightarrow> get_date x \<le> get_date ?ss" for x
    by (rule hd_sorted_reverse_max) simp
  show ?thesis
  proof (cases "?act = []")
    case True
    then show ?thesis by (simp add: res)
  next
    case ne: False
    show ?thesis
    proof (cases "?pre \<noteq> [] \<and> (?stable = [] \<or> get_date ?ss \<le> get_date ?sp)")
      case True
      then have r: "get_latest_release re_search (Releases releases) True tag_re = Some ?sp"
        using ne by (simp add: res)
      have m: "?sp \<in> set ?act" "prerelease ?sp" using sp_mem True by auto
      have "get_date x \<le> get_date ?sp" if "x \<in> set ?act" for x
      proof (cases "prerelease x")
        case True
        then show ?thesis using that sp_max by blast
      next
        case False
        then have "?stable \<noteq> []" using that by (auto simp: filter_empty_conv)
        then have "get_date ?ss \<le> get_date ?sp" using True by blast
        moreover have "get_date x \<le> get_date ?ss" using that False ss_max by blast
        ultimately show ?thesis by (rule order_trans [rotated])
      qed
      then show ?thesis using m by (simp add: r)
    next
      case False
      then have r: "get_latest_release re_search (Releases releases) True tag_re = Some ?ss"
        using ne unfolding res by (simp only: if_False)
      have "?stable \<noteq> []"
      proof
        assume e: "?stable = []"
        then have "?pre = []" using False by blast
        then have "?act = []" using e
          by (metis (mono_tags, lifting) filter_empty_conv neq_Nil_conv list.set_intros(1))
        then show False using ne by contradiction
      qed
      then have m: "?ss \<in> set ?act" "\<not> prerelease ?ss" using ss_mem by auto
      have "get_date x < get_date ?ss" if "x \<in> set ?act" "prerelease x" for x
      proof -
        have "?pre \<noteq> []" using that by (auto simp: filter_empty_conv)
        then have "get_date ?sp < get_date ?ss" using False \<open>?stable \<noteq> []\<close> by auto
        moreover have "get_date x \<le> get_date ?sp" using that sp_max by blast
        ultimately show ?thesis by (rule le_less_trans [rotated])
      qed
      then show ?thesis using m ss_max by (simp add: r)
    qed
  qed
qed

theorem get_latest_release_prefer_pre_witness:
  "get_latest_release (\<lambda>p. None)
     (Releases [\<lparr>tag_name = ''v1.0'', draft = False, prerelease = False,
                   published_at = Some ''2024-07-01'', body = None, assets = []\<rparr>,
                \<lparr>tag_name = ''v1.1-beta'', draft = False, prerelease = True,
                   published_at = Some ''2024-06-01'', body = None, assets = []\<rparr>])
     True None =
   Some \<lparr>tag_name = ''v1.0'', draft = False, prerelease = False,
           published_at = Some ''2024-07-01'', body = None, assets = []\<rparr> \<and>
   get_latest_release (\<lambda>p. None)
     (Releases [\<lparr>tag_name = ''v1.0'', draft = False, prerelease = False,
                   published_at = Some ''2024-01-01'', body = None, assets = []\<rparr>,
                \<lparr>tag_name = ''v1.1-beta'', draft = False, prerelease = True,
                   published_at = Some ''2024-06-01'', body = None, assets = []\<rparr>])
     True None =
   Some \<lparr>tag_name = ''v1.1-beta'', draft = False, prerelease = True,
           published_at = Some ''2024-06-01'', body = None, assets = []\<rparr>"
  using get_latest_release_prefer_pre
    [where re_search = "\<lambda>p. None" and tag_re = None and releases =
        "[\<lparr>tag_name = ''v1.0'', draft = False, prerelease = False,
            published_at = Some ''2024-07-01'', body = None, assets = []\<rparr>,
          \<lparr>tag_name = ''v1.1-beta'', draft = False, prerelease = True,
            published_at = Some ''2024-06-01'', body = None, assets = []\<rparr>]"]
  by (simp add: get_latest_release_def filter_by_tag_def truthy_def sorted_reverse_def
      get_date_def)

text \<open>
  The claim as stated fails on equal dates: a stable release and a pre-release both published
  on 2024-06-01, and the pre-release is returned.
\<close>

theorem get_latest_release_tie_counterexample:
  "get_latest_release (\<lambda>p. None)
     (Releases [\<lparr>tag_name = ''v1.0'', draft = False, prerelease = False,
                   published_at = Some ''2024-06-01'', body = None, assets = []\<rparr>,
                \<lparr>tag_name = ''v1.1-beta'', draft = False, prerelease = True,
                   published_at = Some ''2024-06-01'', body = None, assets = []\<rparr>])
     True None =
   Some \<lparr>tag_name = ''v1.1-beta'', draft = False, prerelease = True,
           published_at = Some ''2024-06-01'', body = None, assets = []\<rparr> \<and>
   get_date \<lparr>tag_name = ''v1.0'', draft = False, prerelease = False,
              published_at = Some ''2024-06-01'', body = None, assets = []\<rparr> \<ge>
   get_date \<lparr>tag_name = ''v1.1-beta'', draft = False, prerelease = True,
              published_at = Some ''2024-06-01'', body = None, assets = []\<rparr>"
  by (simp add: get_latest_release_def filter_by_tag_def truthy_def sorted_reverse_def
      get_date_def)

subsection \<open>The squareness check\<close>

text \<open>
  C5, as the code has it. The check answers \<^verbatim>\<open>False\<close> when the URL is empty or not an
  http(s) URL and when the fetch fails (\<^verbatim>\<open>client.get\<close> answers \<^verbatim>\<open>None\<close>). When the fetch
  succeeds it answers \<^verbatim>\<open>True\<close> if the image cannot be decoded or has height zero, and
  otherwise the comparison of width/height with 0.95 and 1.05.
\<close>

theorem is_square_image_cases:
  "(image_url = [] \<or> \<not> starts_with_http image_url \<or> client_get image_url = None \<longrightarrow>
      \<not> is_square_image client_get image_size image_url) \<and>
   (image_url \<noteq> [] \<and> starts_with_http image_url \<and> client_get image_url = Some response \<longrightarrow>
      (case image_size response of
         None \<Rightarrow> is_square_image client_get image_size image_url
       | Some (width, height) \<Rightarrow>
           is_square_image client_get image_size image_url =
             (height = 0 \<or> (95 * height \<le> 100 * width \<and> 100 * width \<le> 105 * height))))"
  by (auto simp: is_square_image_def split: option.splits)

theorem is_square_image_cases_witness:
  "\<not> is_square_image (\<lambda>u. None) (\<lambda>c. Some (100, 100)) ''https://example.com/icon.png'' \<and>
   is_square_image (\<lambda>u. Some ''not an image'') (\<lambda>c. None) ''https://example.com/icon.png'' \<and>
   is_square_image (\<lambda>u. Some ''png'') (\<lambda>c. Some (100, 104)) ''https://example.com/icon.png'' \<and>
   \<not> is_square_image (\<lambda>u. Some ''png'') (\<lambda>c. Some (120, 100)) ''https://example.com/icon.png''"
  using
    is_square_image_cases [where image_url = "''https://example.com/icon.png''" and
      client_get = "\<lambda>u. None" and image_size = "\<lambda>c. Some (100, 100)"]
    is_square_image_cases [where image_url = "''https://example.com/icon.png''" and
      client_get = "\<lambda>u. Some ''not an image''" and response = "''not an image''" and
      image_size = "\<lambda>c. None"]
    is_square_image_cases [where image_url = "''https://example.com/icon.png''" and
      client_get = "\<lambda>u. Some ''png''" and response = "''png''" and
      image_size = "\<lambda>c. Some (100, 104)"]
    is_square_image_cases [where image_url = "''https://example.com/icon.png''" and
      client_get = "\<lambda>u. Some ''png''" and response = "''png''" and
      image_size = "\<lambda>c. Some (120, 100)"]
  by (simp add: starts_with_http_def)

text \<open>A failed fetch is not assumed acceptable: the check answers \<^verbatim>\<open>False\<close>.\<close>

theorem is_square_image_fetch_failure_counterexample:
  "is_square_image (\<lambda>u. None) (\<lambda>c. Some (100, 100)) ''https://example.com/icon.png'' = False"
  by (simp add: is_square_image_def starts_with_http_def)

subsection \<open>The colour extractor\<close>

lemma dominant_of_all_discarded:
  "\<forall>(count, r, g, b, a)\<in>set colors.
      a < 10 \<or> (r > 240 \<and> g > 240 \<and> b > 240) \<or> (r < 15 \<and> g < 15 \<and> b < 15) \<Longrightarrow>
   dominant_of colors max_count dominant = dominant"
  by (induction colors max_count dominant rule: dominant_of.induct) auto

lemma format_02x_0: "format_02x 0 = ''00''"
  by (simp add: format_02x_def hex_digit_def)

text \<open>
  C6, as the code has it. The extractor answers \<^verbatim>\<open>None\<close> exactly when the URL is empty or
  not an http(s) URL, the fetch fails, Pillow raises, or \<^verbatim>\<open>getcolors\<close> gives nothing. For
  a decoded image all of whose colours are discarded (alpha below 10, all channels above
  240, or all channels below 15) it answers the text \<^verbatim>\<open>#000000\<close>, the initial value of
  \<^verbatim>\<open>dominant\<close>.
\<close>

theorem extract_dominant_color_no_eligible_pixel:
  "(extract_dominant_color client_get image_colors image_url = None \<longleftrightarrow>
      image_url = [] \<or> \<not> starts_with_http image_url \<or> client_get image_url = None \<or>
      (\<exists>response. client_get image_url = Some response \<and>
         image_colors response \<in> {Image_error, No_colors, Colors []})) \<and>
   (image_url \<noteq> [] \<and> starts_with_http image_url \<and>
    client_get image_url = Some response \<and>
    image_colors response = Colors colors \<and> colors \<noteq> [] \<and>
    (\<forall>(count, r, g, b, a)\<in>set colors.
        a < 10 \<or> (r > 240 \<and> g > 240 \<and> b > 240) \<or> (r < 15 \<and> g < 15 \<and> b < 15)) \<longrightarrow>
    extract_dominant_color client_get image_colors image_url = Some ''#000000'')"
proof (intro conjI impI)
  show "extract_dominant_color client_get image_colors image_url = None \<longleftrightarrow>
      image_url = [] \<or> \<not> starts_with_http image_url \<or> client_get image_url = None \<or>
      (\<exists>response. client_get image_url = Some response \<and>
         image_colors response \<in> {Image_error, No_colors, Colors []})"
    by (auto simp: extract_dominant_color_def split: option.splits colors_result.splits prod.splits)
next
  assume a: "image_url \<noteq> [] \<and> starts_with_http image_url \<and>
    client_get image_url = Some response \<and>
    image_colors response = Colors colors \<and> colors \<noteq> [] \<and>
    (\<forall>(count, r, g, b, a)\<in>set colors.
        a < 10 \<or> (r > 240 \<and> g > 240 \<and> b > 240) \<or> (r < 15 \<and> g < 15 \<and> b < 15))"
  then have "dominant_of colors 0 (0, 0, 0) = (0, 0, 0)"
    by (intro dominant_of_all_discarded) blast
  with a show "extract_dominant_color client_get image_colors image_url = Some ''#000000''"
    by (simp add: extract_dominant_color_def format_02x_0)
qed

theorem extract_dominant_color_no_eligible_pixel_witness:
  "extract_dominant_color (\<lambda>u. Some ''png'')
     (\<lambda>c. Colors [(6000, (255, 255, 255, 255)), (3000, (0, 0, 0, 255)), (1000, (120, 30, 40, 0))])
     ''https://example.com/icon.png'' = Some ''#000000'' \<and>
   extract_dominant_color (\<lambda>u. None)
     (\<lambda>c. Colors [(6000, (255, 255, 255, 255)), (3000, (0, 0, 0, 255)), (1000, (120, 30, 40, 0))])
     ''https://example.com/icon.png'' = None"
  using
    extract_dominant_color_no_eligible_pixel [where image_url = "''https://example.com/icon.png''"
      and client_get = "\<lambda>u. Some ''png''" and response = "''png''" and image_colors =
        "\<lambda>c. Colors [(6000, (255, 255, 255, 255)), (3000, (0, 0, 0, 255)), (1000, (120, 30, 40, 0))]"
      and colors = "[(6000, (255, 255, 255, 255)), (3000, (0, 0, 0, 255)), (1000, (120, 30, 40, 0))]"]
    extract_dominant_color_no_eligible_pixel [where image_url = "''https://example.com/icon.png''"
      and client_get = "\<lambda>u. None" and image_colors =
        "\<lambda>c. Colors [(6000, (255, 255, 255, 255)), (3000, (0, 0, 0, 255)), (1000, (120, 30, 40, 0))]"]
  by (simp add: starts_with_http_def)

text \<open>
  A decoded image that is white throughout has no eligible pixel, and the extractor answers
  a hex colour, not \<^verbatim>\<open>None\<close>.
\<close>

theorem extract_dominant_color_white_counterexample:
  "extract_dominant_color (\<lambda>u. Some ''png'') (\<lambda>c. Colors [(10000, (255, 255, 255, 255))])
     ''https://example.com/icon.png'' = Some ''#000000''"
  by (simp add: extract_dominant_color_def starts_with_http_def format_02x_0)

subsection \<open>Name normalization\<close>

text \<open>
  C3. The three spellings \<^verbatim>\<open>UTM-HV\<close>, \<^verbatim>\<open>UTM HV\<close> and \<^verbatim>\<open>UTM_HV\<close> have the same normal
  form; \<open>normalize_name\<close> is a total function of its argument alone.
\<close>

theorem normalize_name_utm_hv:
  "normalize_name ''UTM-HV'' = normalize_name ''UTM HV'' \<and>
   normalize_name ''UTM HV'' = normalize_name ''UTM_HV'' \<and>
   normalize_name ''UTM_HV'' = ''utmhv''"
  by (simp add: normalize_name_def lower_def lower_char_def is_separator_def is_space_def)

subsection \<open>Identifier disambiguation\<close>

lemma suffix_dot_append: "suffix (''.'' @ s) (b @ ''.'' @ s)"
  by (simp add: suffix_def)

text \<open>
  C4. Applying the disambiguator to its own result, with the same display name and repo
  slug, changes nothing, whatever the normalizer is.
\<close>

theorem apply_bundle_id_suffix_idempotent:
  "apply_bundle_id_suffix norm
     (apply_bundle_id_suffix norm bundle_id app_name repo_name) app_name repo_name =
   apply_bundle_id_suffix norm bundle_id app_name repo_name"
  unfolding apply_bundle_id_suffix_def Let_def
  using suffix_dot_append
  by (auto split: option.splits)

subsection \<open>The icon discoverer\<close>

text \<open>
  The squareness check rejects every text of one character, so the iteration of the caller over
  the characters of an icon URL always ends with element 0, the first character.
\<close>

lemma pick_candidate_first_char:
  "pick_candidate (is_square_image client_get sz) url = [hd url]"
proof -
  have "\<not> is_square_image client_get sz [ch]" for ch
    by (simp add: is_square_image_def starts_with_http_def)
  then have "find (is_square_image client_get sz) (map (\<lambda>ch. [ch]) url) = None"
    by (simp add: find_None_iff)
  then show ?thesis by (simp add: pick_candidate_def)
qed

text \<open>
  C7. The tree of \<^verbatim>\<open>org/foo\<close> has two image paths of positive score, 145 and 20. The
  discoverer returns one text, the raw URL of the first, and no list of candidates; that
  URL passes the squareness check, yet the caller, iterating over the characters of the text,
  takes \<^verbatim>\<open>h\<close> for the icon of the new entry.
\<close>

theorem find_best_icon_single_text:
  "find_best_icon example_client_icons ''org/foo'' =
     Inr (Some ''https://raw.githubusercontent.com/org/foo/main/Assets/AppIcon.appiconset/icon-1024.png'') \<and>
   is_square_image (http_get example_client_icons) (dep_image_size example_deps)
     ''https://raw.githubusercontent.com/org/foo/main/Assets/AppIcon.appiconset/icon-1024.png'' \<and>
   new_entry_icon example_deps example_client_icons example_app = Inr ''h''"
proof (intro conjI)
  show "find_best_icon example_client_icons ''org/foo'' =
     Inr (Some ''https://raw.githubusercontent.com/org/foo/main/Assets/AppIcon.appiconset/icon-1024.png'')"
    by code_simp
  show "is_square_image (http_get example_client_icons) (dep_image_size example_deps)
     ''https://raw.githubusercontent.com/org/foo/main/Assets/AppIcon.appiconset/icon-1024.png''"
    by (simp add: is_square_image_def starts_with_http_def example_client_icons_def
        example_client_def example_deps_def)
  show "new_entry_icon example_deps example_client_icons example_app = Inr ''h''"
    by code_simp
qed

subsection \<open>The reconciler\<close>

lemma first_index_Some:
  "first_index P xs = Some i \<Longrightarrow> i < length xs \<and> P (xs ! i)"
  by (induction xs arbitrary: i) (auto split: if_splits)

lemma match_entry_less: "match_entry repo app_name entries = Some i \<Longrightarrow> i < length entries"
  by (auto simp: match_entry_def split: option.splits if_splits dest: first_index_Some)

lemma sync_icon_None: "sync_icon None repo apps_list_to_update = apps_list_to_update"
  by (simp add: sync_icon_def truthy_def)

lemma refresh_bundle_id_frame:
  "same_history e (refresh_bundle_id d n r e) \<and>
   permissions (refresh_bundle_id d n r e) = permissions e"
  by (simp add: refresh_bundle_id_def same_history_def split: option.split)

lemma refresh_tint_frame:
  "refresh_tint d c app_config e = Inr e' \<Longrightarrow>
   same_history e e' \<and> permissions e' = permissions e"
  by (auto simp: refresh_tint_def same_history_def Let_def split: if_splits option.splits)

lemma refresh_entry_frame:
  assumes "refresh_entry d c app_config entry = Inr entry'"
  shows "same_history entry entry' \<and> permissions entry' = None"
proof -
  let ?e1 = "refresh_bundle_id d (name app_config) (github_repo app_config)
               (entry\<lparr>githubRepo := Some (github_repo app_config),
                      entry_name := Some (name app_config)\<rparr>)"
  have h1: "same_history entry ?e1"
    using refresh_bundle_id_frame [of "entry\<lparr>githubRepo := Some (github_repo app_config),
                      entry_name := Some (name app_config)\<rparr>" d "name app_config" "github_repo app_config"]
    by (simp add: same_history_def)
  from assms obtain icons e2 where
    e2: "refresh_tint d c app_config
           (if truthy (select_icon d c (icon_url app_config) (iconURL ?e1) icons)
            then ?e1\<lparr>iconURL := select_icon d c (icon_url app_config) (iconURL ?e1) icons\<rparr>
            else ?e1) = Inr e2"
    and r: "entry' = e2\<lparr>permissions := None\<rparr>"
    unfolding refresh_entry_def Let_def
    by (auto split: sum.splits)
  have "same_history
          (if truthy (select_icon d c (icon_url app_config) (iconURL ?e1) icons)
            then ?e1\<lparr>iconURL := select_icon d c (icon_url app_config) (iconURL ?e1) icons\<rparr>
            else ?e1) e2"
    using refresh_tint_frame [OF e2] by simp
  then have "same_history ?e1 e2"
    by (simp add: same_history_def split: if_splits)
  with h1 have "same_history entry e2" by (simp add: same_history_def)
  then show ?thesis using r by (simp add: same_history_def)
qed

lemma process_app_apps_list:
  "process_app d c app_config source0 apps_list = Inr (source', apps_list') \<Longrightarrow>
   apps_list' = apps_list"
  unfolding process_app_def Let_def
  by (auto simp: sync_icon_None split: sum.splits option.splits if_splits)

lemma process_apps_config:
  "process_apps d c i n (source_data, config) = Inr (source_data', config') \<Longrightarrow>
   config' = config"
proof (induction n arbitrary: i source_data)
  case 0
  then show ?case by simp
next
  case (Suc n)
  then show ?case
    by (auto split: sum.splits option.splits dest: process_app_apps_list)
qed

lemma update_repo_never_saves_config:
  "update_repo d c config loaded n i = Inr w \<Longrightarrow> saved_config w = None"
  unfolding update_repo_def Let_def
  by (auto split: sum.splits dest: process_apps_config)

lemma merge_version_matched:
  assumes "merge_version d c app_config existing matched release ipa_asset vbs = Inr merged"
    and "matched = Some i" and "i < length (apps existing)"
  shows "length (apps merged) = length (apps existing) \<and>
         permissions (apps merged ! i) = permissions (apps existing ! i)"
  using assms unfolding merge_version_def Let_def
  by (auto split: prod.splits option.splits sum.splits)

lemma merge_version_new:
  assumes "merge_version d c app_config existing None release ipa_asset vbs = Inr merged"
  shows "\<exists>e. apps merged = apps existing @ [e] \<and> permissions e = Some []"
  using assms unfolding merge_version_def Let_def
  by (auto split: prod.splits option.splits sum.splits)

lemma process_app_unmatched:
  assumes "match_entry (github_repo app_config) (name app_config) (apps source0) = None"
    and "process_app d c app_config source0 apps_list = Inr (source', apps_list')"
  shows "apps source' = apps source0 \<or>
         (\<exists>e. apps source' = apps source0 @ [e] \<and> permissions e = Some [])"
  using assms unfolding process_app_def Let_def
  by (auto split: sum.splits option.splits if_splits dest: merge_version_new)

lemma process_app_matched:
  assumes m: "match_entry (github_repo app_config) (name app_config) (apps source0) = Some i"
    and p: "process_app d c app_config source0 apps_list = Inr (source', apps_list')"
  shows "\<exists>entry'. refresh_entry d c app_config (apps source0 ! i) = Inr entry' \<and>
           length (apps source') = length (apps source0) \<and>
           permissions (apps source' ! i) = None \<and>
           (source' = source0\<lparr>apps := (apps source0)[i := entry']\<rparr> \<or>
            (\<exists>release ipa_asset.
               get_latest_release (dep_re_search d) (get_releases c (github_repo app_config))
                 (pre_release app_config) (tag_regex app_config) = Some release \<and>
               select_best_ipa d (assets release) app_config = Some ipa_asset \<and>
               \<not> list_ex (\<lambda>v. v_downloadURL v = Some (browser_download_url ipa_asset))
                    (case versions entry' of None \<Rightarrow> [] | Some vs \<Rightarrow> vs)))"
proof -
  have il: "i < length (apps source0)" using m by (rule match_entry_less)
  from p m obtain entry' where
    r: "refresh_entry d c app_config (apps source0 ! i) = Inr entry'"
    unfolding process_app_def Let_def by (auto split: sum.splits)
  let ?ex = "source0\<lparr>apps := (apps source0)[i := entry']\<rparr>"
  have pn: "permissions entry' = None" using refresh_entry_frame [OF r] by simp
  have exi: "apps ?ex ! i = entry'" using il by simp
  have "source' = ?ex \<or>
        (\<exists>release ipa_asset ipa_file.
           get_latest_release (dep_re_search d) (get_releases c (github_repo app_config))
             (pre_release app_config) (tag_regex app_config) = Some release \<and>
           select_best_ipa d (assets release) app_config = Some ipa_asset \<and>
           \<not> list_ex (\<lambda>v. v_downloadURL v = Some (browser_download_url ipa_asset))
                (case versions entry' of None \<Rightarrow> [] | Some vs \<Rightarrow> vs) \<and>
           merge_version d c app_config ?ex (Some i) release ipa_asset
             (version_from_ipa d (name app_config) (github_repo app_config) release ipa_file) =
             Inr source')"
    using p m r il unfolding process_app_def Let_def
    by (auto split: sum.splits option.splits if_splits)
  then show ?thesis
  proof
    assume "source' = ?ex"
    then show ?thesis using r pn il by auto
  next
    assume "\<exists>release ipa_asset ipa_file.
           get_latest_release (dep_re_search d) (get_releases c (github_repo app_config))
             (pre_release app_config) (tag_regex app_config) = Some release \<and>
           select_best_ipa d (assets release) app_config = Some ipa_asset \<and>
           \<not> list_ex (\<lambda>v. v_downloadURL v = Some (browser_download_url ipa_asset))
                (case versions entry' of None \<Rightarrow> [] | Some vs \<Rightarrow> vs) \<and>
           merge_version d c app_config ?ex (Some i) release ipa_asset
             (version_from_ipa d (name app_config) (github_repo app_config) release ipa_file) =
             Inr source'"
    then obtain release ipa_asset ipa_file where
      g: "get_latest_release (dep_re_search d) (get_releases c (github_repo app_config))
             (pre_release app_config) (tag_regex app_config) = Some release"
      and s: "select_best_ipa d (assets release) app_config = Some ipa_asset"
      and n: "\<not> list_ex (\<lambda>v. v_downloadURL v = Some (browser_download_url ipa_asset))
                (case versions entry' of None \<Rightarrow> [] | Some vs \<Rightarrow> vs)"
      and mv: "merge_version d c app_config ?ex (Some i) release ipa_asset
             (version_from_ipa d (name app_config) (github_repo app_config) release ipa_file) =
             Inr source'"
      by blast
    have "length (apps source') = length (apps ?ex) \<and>
          permissions (apps source' ! i) = permissions (apps ?ex ! i)"
      using mv il by (intro merge_version_matched [where matched = "Some i"]) auto
    then show ?thesis using r pn il g s n by auto
  qed
qed

text \<open>
  C10. Whenever \<^verbatim>\<open>process_app\<close> returns: if the application matches the entry at position
  \<open>i\<close>, no entry is added and that entry has no key \<^verbatim>\<open>permissions\<close> afterwards, and when
  no release or no asset is found its version history is the one it had; if the application
  matches no entry, the catalog is unchanged or has one more entry at its end, whose
  \<^verbatim>\<open>permissions\<close> is the empty object.
\<close>

theorem process_app_permissions:
  assumes "process_app d c app_config source0 apps_list = Inr (source', apps_list')"
  shows "case match_entry (github_repo app_config) (name app_config) (apps source0) of
           Some i \<Rightarrow>
             i < length (apps source0) \<and> length (apps source') = length (apps source0) \<and>
             permissions (apps source' ! i) = None \<and>
             ((\<forall>release.
                 get_latest_release (dep_re_search d) (get_releases c (github_repo app_config))
                   (pre_release app_config) (tag_regex app_config) = Some release \<longrightarrow>
                 select_best_ipa d (assets release) app_config = None) \<longrightarrow>
              versions (apps source' ! i) = versions (apps source0 ! i))
         | None \<Rightarrow>
             apps source' = apps source0 \<or>
             (\<exists>e. apps source' = apps source0 @ [e] \<and> permissions e = Some [])"
proof (cases "match_entry (github_repo app_config) (name app_config) (apps source0)")
  case None
  then show ?thesis using process_app_unmatched [OF None assms] by simp
next
  case (Some i)
  have il: "i < length (apps source0)" using Some by (rule match_entry_less)
  from process_app_matched [OF Some assms] obtain entry' where
    r: "refresh_entry d c app_config (apps source0 ! i) = Inr entry'"
    and l: "length (apps source') = length (apps source0)"
    and p: "permissions (apps source' ! i) = None"
    and alt: "source' = source0\<lparr>apps := (apps source0)[i := entry']\<rparr> \<or>
            (\<exists>release ipa_asset.
               get_latest_release (dep_re_search d) (get_releases c (github_repo app_config))
                 (pre_release app_config) (tag_regex app_config) = Some release \<and>
               select_best_ipa d (assets release) app_config = Some ipa_asset \<and>
               \<not> list_ex (\<lambda>v. v_downloadURL v = Some (browser_download_url ipa_asset))
                    (case versions entry' of None \<Rightarrow> [] | Some vs \<Rightarrow> vs))"
    by blast
  have v: "versions entry' = versions (apps source0 ! i)"
    using refresh_entry_frame [OF r] by (simp add: same_history_def)
  have "versions (apps source' ! i) = versions (apps source0 ! i)"
    if "\<forall>release.
          get_latest_release (dep_re_search d) (get_releases c (github_repo app_config))
            (pre_release app_config) (tag_regex app_config) = Some release \<longrightarrow>
          select_best_ipa d (assets release) app_config = None"
  proof -
    from alt that have "source' = source0\<lparr>apps := (apps source0)[i := entry']\<rparr>" by auto
    then show ?thesis using il v by simp
  qed
  then show ?thesis using Some il l p by simp
qed

theorem process_app_permissions_witness:
  "process_app example_deps (example_client\<lparr>get_releases := (\<lambda>repo. Unavailable)\<rparr>) example_app
     (example_catalog [example_entry]) (Some [example_app]) =
   Inr (example_catalog [example_entry\<lparr>permissions := None\<rparr>], Some [example_app]) \<and>
   permissions (example_entry\<lparr>permissions := None\<rparr>) = None \<and>
   process_app example_deps example_client example_app (example_catalog []) (Some [example_app]) =
   Inr (example_catalog [example_entry], Some [example_app]) \<and>
   permissions example_entry = Some []"
proof -
  have a: "process_app example_deps (example_client\<lparr>get_releases := (\<lambda>repo. Unavailable)\<rparr>)
             example_app (example_catalog [example_entry]) (Some [example_app]) =
           Inr (example_catalog [example_entry\<lparr>permissions := None\<rparr>], Some [example_app])"
    by code_simp
  have b: "process_app example_deps example_client example_app (example_catalog [])
             (Some [example_app]) =
           Inr (example_catalog [example_entry], Some [example_app])"
    by code_simp
  have ma: "match_entry (github_repo example_app) (name example_app)
              (apps (example_catalog [example_entry])) = Some 0"
    by code_simp
  have mb: "match_entry (github_repo example_app) (name example_app)
              (apps (example_catalog [])) = None"
    by code_simp
  show ?thesis
    using process_app_permissions [OF a] process_app_permissions [OF b] a b ma mb
    by (simp add: example_catalog_def example_entry_def)
qed

text \<open>
  C8, as the code has it. \<^verbatim>\<open>found_icon_auto\<close> is never assigned an icon, so
  \<^verbatim>\<open>process_app\<close> returns the curated list it was given and \<^verbatim>\<open>update_repo\<close> never writes
  the curated-list file, also in a run that discovers the icon of an application without
  an icon of its own.
\<close>

theorem curated_list_never_rewritten:
  "(process_app d c app_config source0 apps_list = Inr (source', apps_list') \<longrightarrow>
      apps_list' = apps_list) \<and>
   (update_repo d c config loaded name_of_source identifier_of_source = Inr w \<longrightarrow>
      saved_config w = None)"
  using process_app_apps_list update_repo_never_saves_config by blast

theorem curated_list_never_rewritten_witness:
  "update_repo example_deps example_client_icons [example_app] (example_catalog [])
     ''Sideload Source'' ''io.github.source'' =
   Inr \<lparr>saved_config = None,
        saved_source = example_catalog [example_entry\<lparr>iconURL := Some ''h''\<rparr>]\<rparr> \<and>
   icon_url example_app = None"
proof -
  have r: "update_repo example_deps example_client_icons [example_app] (example_catalog [])
             ''Sideload Source'' ''io.github.source'' =
           Inr \<lparr>saved_config = None,
                saved_source = example_catalog [example_entry\<lparr>iconURL := Some ''h''\<rparr>]\<rparr>"
    by code_simp
  have i: "icon_url example_app = None" by code_simp
  show ?thesis
    using curated_list_never_rewritten
      [where d = example_deps and c = example_client_icons and config = "[example_app]"
         and loaded = "example_catalog []" and name_of_source = "''Sideload Source''"
         and identifier_of_source = "''io.github.source''"
         and w = "\<lparr>saved_config = None,
                saved_source = example_catalog [example_entry\<lparr>iconURL := Some ''h''\<rparr>]\<rparr>"]
      r i
    by simp
qed

text \<open>
  C2, as the code has it. When the matched entry already has a version record with the
  download URL of the resolved asset, \<^verbatim>\<open>process_app\<close> does what the refresh of that entry
  does and nothing more: it fails where the refresh fails, and otherwise returns the catalog
  with that one entry refreshed and the curated list as given. The refreshed entry has the
  same history and no key \<^verbatim>\<open>permissions\<close>.
\<close>

theorem process_app_up_to_date:
  assumes "match_entry (github_repo app_config) (name app_config) (apps source0) = Some i"
    and "get_latest_release (dep_re_search d) (get_releases c (github_repo app_config))
           (pre_release app_config) (tag_regex app_config) = Some release"
    and "select_best_ipa d (assets release) app_config = Some ipa_asset"
    and "list_ex (\<lambda>v. v_downloadURL v = Some (browser_download_url ipa_asset))
           (case versions (apps source0 ! i) of None \<Rightarrow> [] | Some vs \<Rightarrow> vs)"
  shows "process_app d c app_config source0 apps_list =
           (case refresh_entry d c app_config (apps source0 ! i) of
              Inl e \<Rightarrow> Inl e
            | Inr entry' \<Rightarrow> Inr (source0\<lparr>apps := (apps source0)[i := entry']\<rparr>, apps_list)) \<and>
         (case refresh_entry d c app_config (apps source0 ! i) of
            Inl e \<Rightarrow> True
          | Inr entry' \<Rightarrow> same_history (apps source0 ! i) entry' \<and> permissions entry' = None)"
proof (cases "refresh_entry d c app_config (apps source0 ! i)")
  case (Inl e)
  then show ?thesis using assms(1) by (simp add: process_app_def)
next
  case (Inr entry')
  have il: "i < length (apps source0)" using assms(1) by (rule match_entry_less)
  have f: "same_history (apps source0 ! i) entry' \<and> permissions entry' = None"
    using Inr by (rule refresh_entry_frame)
  then have "versions entry' = versions (apps source0 ! i)" by (simp add: same_history_def)
  then show ?thesis
    using assms Inr il f by (simp add: process_app_def)
qed

theorem process_app_up_to_date_witness:
  "process_app example_deps example_client example_app (example_catalog [example_entry])
     (Some [example_app]) =
   Inr (example_catalog [example_entry\<lparr>permissions := None\<rparr>], Some [example_app]) \<and>
   same_history example_entry (example_entry\<lparr>permissions := None\<rparr>)"
proof -
  have m: "match_entry (github_repo example_app) (name example_app)
             (apps (example_catalog [example_entry])) = Some 0"
    by code_simp
  have g: "get_latest_release (dep_re_search example_deps)
             (get_releases example_client (github_repo example_app))
             (pre_release example_app) (tag_regex example_app) = Some example_release"
    by code_simp
  have s: "select_best_ipa example_deps (assets example_release) example_app =
             Some \<lparr>asset_name = ''Foo.ipa'',
                   browser_download_url = ''https://github.com/org/foo/releases/download/v1.0.0/Foo.ipa'',
                   asset_size = 100\<rparr>"
    by code_simp
  have v: "list_ex (\<lambda>v. v_downloadURL v = Some (browser_download_url
             \<lparr>asset_name = ''Foo.ipa'',
              browser_download_url = ''https://github.com/org/foo/releases/download/v1.0.0/Foo.ipa'',
              asset_size = 100\<rparr>))
           (case versions (apps (example_catalog [example_entry]) ! 0) of
              None \<Rightarrow> [] | Some vs \<Rightarrow> vs)"
    by code_simp
  have r: "refresh_entry example_deps example_client example_app
             (apps (example_catalog [example_entry]) ! 0) =
           Inr (example_entry\<lparr>permissions := None\<rparr>)"
    by code_simp
  have u: "(example_catalog [example_entry])
             \<lparr>apps := (apps (example_catalog [example_entry]))
                        [0 := example_entry\<lparr>permissions := None\<rparr>]\<rparr> =
           example_catalog [example_entry\<lparr>permissions := None\<rparr>]"
    by (simp add: example_catalog_def)
  show ?thesis
    using process_app_up_to_date [OF m g s v, of "Some [example_app]"] r u
    by (simp add: example_catalog_def)
qed

text \<open>
  The second run does not reproduce the catalog of the first: the first run creates the
  entry with an empty \<^verbatim>\<open>permissions\<close> object, the second removes that key.
\<close>

theorem update_repo_second_run_counterexample:
  "update_repo example_deps example_client [example_app] (example_catalog [])
     ''Sideload Source'' ''io.github.source'' =
     Inr \<lparr>saved_config = None, saved_source = example_catalog [example_entry]\<rparr> \<and>
   update_repo example_deps example_client [example_app] (example_catalog [example_entry])
     ''Sideload Source'' ''io.github.source'' =
     Inr \<lparr>saved_config = None,
          saved_source = example_catalog [example_entry\<lparr>permissions := None\<rparr>]\<rparr> \<and>
   example_catalog [example_entry\<lparr>permissions := None\<rparr>] \<noteq> example_catalog [example_entry]"
  by code_simp

end
